theory Spec2Isabelle
  imports Complex_Main
begin

section \<open>The calculator\<close>

text \<open>
  The repository holds a command-line calculator in C and in C++. Of the C++ program the
  front end \<^verbatim>\<open>cpp_cli/main.cpp\<close> and the GoogleTest file are among the sources; of the C
  program only the CUnit test file is. The function \<^verbatim>\<open>calculate\<close> itself
  (\<^verbatim>\<open>calculator.cpp\<close>, \<^verbatim>\<open>calc.c\<close>) is in neither.

  A \<^verbatim>\<open>double\<close> is modelled by the real number it stands for: the arithmetic is exact, and
  rounding, overflow, signed zeros, infinities and NaN are outside the model. Nothing below
  is therefore said about the value of a sum, difference, product or quotient of doubles
  in general; the runs on concrete command lines use small integers only, on which the
  arithmetic of \<^verbatim>\<open>double\<close> is exact as well.
\<close>

type_synonym double = real

subsection \<open>Data model\<close>

datatype Operation = Add | Subtract | Multiply | Divide

datatype CalcError = DivisionByZero | UnknownOperation

text \<open>
  Modelled from the spec: the selection of the operation by its string token is part of the
  missing \<^verbatim>\<open>calculate\<close>. The spec's data model lists the four tokens.
\<close>

definition operation_of_token :: "string \<Rightarrow> Operation option" where
  "operation_of_token tok =
     (if tok = ''--add'' then Some Add
      else if tok = ''--subtract'' then Some Subtract
      else if tok = ''--multiply'' then Some Multiply
      else if tok = ''--divide'' then Some Divide
      else None)"

text \<open>
  Modelled from the spec: \<^verbatim>\<open>calculate\<close> is missing from the sources (only its tests and
  its caller \<^verbatim>\<open>main\<close> are there). The spec's contract is
  \<^verbatim>\<open>calculate(a, b, operation) -> Result<float64, CalcError>\<close>: add gives \<open>a + b\<close>, subtract
  \<open>a - b\<close>, multiply \<open>a * b\<close>, divide \<open>a / b\<close> except that \<open>b == 0\<close> fails with
  \<open>DivisionByZero\<close>; an unrecognised token fails with \<open>UnknownOperation\<close>.
\<close>

definition calculate :: "double \<Rightarrow> double \<Rightarrow> string \<Rightarrow> CalcError + double" where
  "calculate a b tok =
     (case operation_of_token tok of
        None \<Rightarrow> Inl UnknownOperation
      | Some Add \<Rightarrow> Inr (a + b)
      | Some Subtract \<Rightarrow> Inr (a - b)
      | Some Multiply \<Rightarrow> Inr (a * b)
      | Some Divide \<Rightarrow> (if b = 0 then Inl DivisionByZero else Inr (a / b)))"

subsection \<open>C++ exceptions\<close>

text \<open>
  What a C++ call throws: an object of a class derived from \<^verbatim>\<open>std::exception\<close>, with its
  \<^verbatim>\<open>what()\<close> text, or an object of some other type.
\<close>

datatype exception_class = Invalid_argument | Out_of_range | Other_exception

datatype thrown = Std exception_class string | Not_std

text \<open>
  Modelled from the spec: the C++ \<^verbatim>\<open>calculate\<close> of \<^verbatim>\<open>calculator.hpp\<close> is missing from the
  sources. It returns the result of the spec's \<^verbatim>\<open>calculate\<close> and raises its errors as
  exceptions. \<^verbatim>\<open>test_calculator.cpp\<close> expects \<^verbatim>\<open>std::invalid_argument\<close> for a division by zero;
  the spec has the front end print a message for an unknown operation as well, so that
  error is an exception derived from \<^verbatim>\<open>std::exception\<close> too. Its class \<open>unk\<close> and the
  \<^verbatim>\<open>what()\<close> texts \<open>what_of\<close> are in neither the sources nor the spec: they are parameters.
\<close>

definition calculate_cpp ::
  "(CalcError \<Rightarrow> string) \<Rightarrow> exception_class \<Rightarrow> double \<Rightarrow> double \<Rightarrow> string \<Rightarrow> thrown + double" where
  "calculate_cpp what_of unk a b tok =
     (case calculate a b tok of
        Inr r \<Rightarrow> Inr r
      | Inl DivisionByZero \<Rightarrow> Inl (Std Invalid_argument (what_of DivisionByZero))
      | Inl UnknownOperation \<Rightarrow> Inl (Std unk (what_of UnknownOperation)))"

subsection \<open>The C++ front end\<close>

text \<open>
  \<^verbatim>\<open>EXIT_SUCCESS\<close> and \<^verbatim>\<open>EXIT_FAILURE\<close> are the macros of \<^verbatim>\<open><cstdlib>\<close>, with their usual
  values.
\<close>

definition EXIT_SUCCESS :: int where
  "EXIT_SUCCESS = 0"

definition EXIT_FAILURE :: int where
  "EXIT_FAILURE = 1"

text \<open>
  What is written to a stream: text, or a number through \<^verbatim>\<open>operator<<(double)\<close>, whose
  digits are the library's and are not spelled out here.
\<close>

datatype 'd chunk = Text string | Num 'd

text \<open>The calls that \<^verbatim>\<open>main\<close> makes, in order.\<close>

datatype 'd call = Stod string | Calculate 'd 'd string

text \<open>
  How the process ends: \<^verbatim>\<open>main\<close> returns an exit status, or an exception leaves \<^verbatim>\<open>main\<close>
  uncaught and \<^verbatim>\<open>std::terminate\<close> ends the process.
\<close>

datatype ending = Return int | Terminate thrown

record 'd run =
  ending :: ending
  cout :: "'d chunk list"
  cerr :: "'d chunk list"
  calls :: "'d call list"

definition usage :: string where
  "usage = ''Usage: ./calculator <operation> <operand1> <operand2>'' @ [CHR 0x0A]"

definition endl :: string where
  "endl = [CHR 0x0A]"

text \<open>
  \<^verbatim>\<open>main(argc, argv)\<close> of \<^verbatim>\<open>main.cpp\<close>; \<open>argc\<close> is the length of \<open>argv\<close>. The library's
  \<^verbatim>\<open>std::stod\<close> and the missing \<^verbatim>\<open>calculate\<close> are parameters. The two conversions stand
  before the \<^verbatim>\<open>try\<close> block, so what they throw leaves \<^verbatim>\<open>main\<close>; the handler catches
  \<^verbatim>\<open>const std::exception&\<close> only.
\<close>

definition main ::
  "(string \<Rightarrow> thrown + 'd) \<Rightarrow> ('d \<Rightarrow> 'd \<Rightarrow> string \<Rightarrow> thrown + 'd) \<Rightarrow> string list \<Rightarrow> 'd run" where
  "main stod calc argv =
     (if int (length argv) \<noteq> 4 then
        \<lparr>ending = Return EXIT_FAILURE, cout = [], cerr = [Text usage], calls = []\<rparr>
      else
        case stod (argv ! 2) of
          Inl e \<Rightarrow> \<lparr>ending = Terminate e, cout = [], cerr = [], calls = [Stod (argv ! 2)]\<rparr>
        | Inr op1 \<Rightarrow>
            (case stod (argv ! 3) of
               Inl e \<Rightarrow>
                 \<lparr>ending = Terminate e, cout = [], cerr = [],
                  calls = [Stod (argv ! 2), Stod (argv ! 3)]\<rparr>
             | Inr op2 \<Rightarrow>
                 (let operation = argv ! 1;
                      cs = [Stod (argv ! 2), Stod (argv ! 3), Calculate op1 op2 operation]
                  in case calc op1 op2 operation of
                       Inr result \<Rightarrow>
                         \<lparr>ending = Return EXIT_SUCCESS,
                          cout = [Text ''Result: '', Num result, Text endl],
                          cerr = [], calls = cs\<rparr>
                     | Inl (Std c what) \<Rightarrow>
                         \<lparr>ending = Return EXIT_FAILURE, cout = [],
                          cerr = [Text what, Text endl], calls = cs\<rparr>
                     | Inl Not_std \<Rightarrow>
                         \<lparr>ending = Terminate Not_std, cout = [], cerr = [], calls = cs\<rparr>)))"

subsection \<open>Decimal operands\<close>

text \<open>
  \<^verbatim>\<open>std::stod\<close> on decimal operands, which is what the CLI surface of the spec takes: as
  \<^verbatim>\<open>strtod\<close> it skips white space, reads an optional sign, digits with an optional point
  and an optional exponent, and ignores whatever follows; with no digits it throws
  \<^verbatim>\<open>std::invalid_argument\<close>. The value is the exact decimal value. The hexadecimal,
  infinity and NaN spellings of \<^verbatim>\<open>strtod\<close>, its range error and its rounding are not
  covered: there the definition is not the library. The general statements about \<open>main\<close>
  hold for every \<open>stod\<close>; this one serves to run \<open>main\<close> on operands made of a few decimal
  digits or of letters, where it is the library.
\<close>

definition isspace :: "char \<Rightarrow> bool" where
  "isspace c = (c = CHR '' '' \<or> (9 \<le> (of_char c :: nat) \<and> (of_char c :: nat) \<le> 13))"

definition isdigit :: "char \<Rightarrow> bool" where
  "isdigit c = (48 \<le> (of_char c :: nat) \<and> (of_char c :: nat) \<le> 57)"

definition digits_value :: "string \<Rightarrow> nat" where
  "digits_value ds = foldl (\<lambda>n c. 10 * n + (of_char c - 48)) 0 ds"

definition take_sign :: "string \<Rightarrow> bool \<times> string" where
  "take_sign s =
     (case s of
        [] \<Rightarrow> (False, [])
      | c # r \<Rightarrow> if c = CHR ''-'' then (True, r) else if c = CHR ''+'' then (False, r) else (False, s))"

definition take_fraction :: "string \<Rightarrow> string \<times> string" where
  "take_fraction s =
     (case s of
        [] \<Rightarrow> ([], [])
      | c # r \<Rightarrow> if c = CHR ''.'' then (takeWhile isdigit r, dropWhile isdigit r) else ([], s))"

definition take_exponent :: "string \<Rightarrow> int \<times> string" where
  "take_exponent s =
     (case s of
        [] \<Rightarrow> (0, [])
      | c # r \<Rightarrow>
          if c = CHR ''e'' \<or> c = CHR ''E'' then
            (let (neg, r1) = take_sign r; ds = takeWhile isdigit r1
             in if ds = [] then (0, s)
                else ((if neg then - int (digits_value ds) else int (digits_value ds)),
                      dropWhile isdigit r1))
          else (0, s))"

definition scale10 :: "real \<Rightarrow> int \<Rightarrow> real" where
  "scale10 m e = (if 0 \<le> e then m * 10 ^ nat e else m / 10 ^ nat (- e))"

text \<open>The value of the longest decimal prefix and the rest of the string, as \<^verbatim>\<open>strtod\<close>
  gives them through its end pointer; \<open>None\<close> when there is no conversion.\<close>

definition strtod_decimal :: "string \<Rightarrow> (double \<times> string) option" where
  "strtod_decimal s =
     (let (neg, s1) = take_sign (dropWhile isspace s);
          ip = takeWhile isdigit s1;
          (fp, s2) = take_fraction (dropWhile isdigit s1)
      in if ip = [] \<and> fp = [] then None
         else
           (let (e, s3) = take_exponent s2;
                v = scale10 (real (digits_value (ip @ fp)) / 10 ^ length fp) e
            in Some (if neg then - v else v, s3)))"

definition stod_decimal :: "string \<Rightarrow> thrown + double" where
  "stod_decimal s =
     (case strtod_decimal s of
        None \<Rightarrow> Inl (Std Invalid_argument ''stod'')
      | Some (v, rest) \<Rightarrow> Inr v)"

text \<open>A decimal numeric literal: the whole string is converted, with nothing before or
  after the number.\<close>

definition decimal_literal :: "string \<Rightarrow> bool" where
  "decimal_literal s =
     (case strtod_decimal s of
        None \<Rightarrow> False
      | Some (v, rest) \<Rightarrow> rest = [] \<and> \<not> isspace (hd s))"

text \<open>
  The \<^verbatim>\<open>what()\<close> texts of the missing \<^verbatim>\<open>calculate\<close> are unknown; where the model is run
  on a concrete command line, the name of the error stands for its text.
\<close>

definition error_name :: "CalcError \<Rightarrow> string" where
  "error_name e = (case e of DivisionByZero \<Rightarrow> ''DivisionByZero'' | UnknownOperation \<Rightarrow> ''UnknownOperation'')"

section \<open>Evaluation of the decimal conversion\<close>

lemmas strtod_defs =
  strtod_decimal_def take_sign_def take_fraction_def take_exponent_def isspace_def
  isdigit_def digits_value_def scale10_def

lemma stod_decimal_5abc: "stod_decimal ''5abc'' = Inr 5"
  by (simp add: stod_decimal_def strtod_defs)

lemma stod_decimal_digit:
  "stod_decimal ''0'' = Inr 0" "stod_decimal ''1'' = Inr 1" "stod_decimal ''2'' = Inr 2"
  "stod_decimal ''3'' = Inr 3"
  by (simp_all add: stod_decimal_def strtod_defs)

lemma stod_decimal_no_digits:
  "stod_decimal ''abc'' = Inl (Std Invalid_argument ''stod'')"
  "stod_decimal ''x'' = Inl (Std Invalid_argument ''stod'')"
  by (simp_all add: stod_decimal_def strtod_defs)

lemma not_decimal_literal_5abc: "\<not> decimal_literal ''5abc''"
  by (simp add: decimal_literal_def strtod_defs)

lemma not_decimal_literal_abc: "\<not> decimal_literal ''abc''"
  by (simp add: decimal_literal_def strtod_defs)

section \<open>The calculator's contract\<close>

text \<open>
  C1. For every operand \<open>a\<close>, \<open>calculate\<close> with the operands \<open>a\<close> and \<open>0\<close> and the divide
  operation fails with \<open>DivisionByZero\<close>: the outcome is an error and carries no number.
\<close>

theorem calculate_divide_by_zero:
  "calculate a 0 ''--divide'' = Inl DivisionByZero \<and> isl (calculate a 0 ''--divide'')"
  by (simp add: calculate_def operation_of_token_def)

text \<open>
  C4. For every operation token other than the four of the calculator and for all
  operands, \<open>calculate\<close> returns the error \<open>UnknownOperation\<close>; in C++ it is raised as an
  exception, which is an ordinary outcome of the call.
\<close>

theorem calculate_unknown_operation:
  assumes "tok \<notin> {''--add'', ''--subtract'', ''--multiply'', ''--divide''}"
  shows "calculate a b tok = Inl UnknownOperation \<and>
         calculate_cpp what_of unk a b tok = Inl (Std unk (what_of UnknownOperation))"
proof -
  from assms have "operation_of_token tok = None"
    by (simp add: operation_of_token_def)
  then have "calculate a b tok = Inl UnknownOperation"
    by (simp add: calculate_def)
  then show ?thesis
    by (simp add: calculate_cpp_def)
qed

theorem calculate_unknown_operation_witness:
  "''--power'' \<notin> {''--add'', ''--subtract'', ''--multiply'', ''--divide''} \<and>
   calculate 2 3 ''--power'' = Inl UnknownOperation \<and>
   calculate_cpp error_name Invalid_argument 2 3 ''--power''
     = Inl (Std Invalid_argument ''UnknownOperation'')"
  using calculate_unknown_operation [of "''--power''" 2 3 error_name Invalid_argument]
  by (simp add: error_name_def)

section \<open>The front end\<close>

text \<open>
  The runs of \<open>main\<close> on four arguments whose operands \<open>std::stod\<close> converts: a result
  of \<open>calculate\<close> goes to standard output with status \<open>EXIT_SUCCESS\<close>, and standard output
  is written in no other run.
\<close>

lemma main_success:
  assumes "length argv = 4"
    and "stod (argv ! 2) = Inr x" and "stod (argv ! 3) = Inr y"
    and "calc x y (argv ! 1) = Inr r"
  shows "main stod calc argv =
           \<lparr>ending = Return EXIT_SUCCESS, cout = [Text ''Result: '', Num r, Text endl],
            cerr = [], calls = [Stod (argv ! 2), Stod (argv ! 3), Calculate x y (argv ! 1)]\<rparr>"
  using assms by (simp add: main_def)

lemma main_success_only:
  assumes "ending (main stod calc argv) = Return EXIT_SUCCESS"
  shows "\<exists>x y r. length argv = 4 \<and> stod (argv ! 2) = Inr x \<and> stod (argv ! 3) = Inr y \<and>
           calc x y (argv ! 1) = Inr r \<and>
           cout (main stod calc argv) = [Text ''Result: '', Num r, Text endl] \<and>
           cerr (main stod calc argv) = []"
proof (cases "length argv = 4")
  case False
  then have "ending (main stod calc argv) = Return EXIT_FAILURE"
    by (simp add: main_def)
  with assms show ?thesis
    by (simp add: EXIT_FAILURE_def EXIT_SUCCESS_def)
next
  case len: True
  show ?thesis
  proof (cases "stod (argv ! 2)")
    case (Inl e)
    with len assms show ?thesis by (simp add: main_def)
  next
    case x: (Inr x)
    show ?thesis
    proof (cases "stod (argv ! 3)")
      case (Inl e)
      with len x assms show ?thesis by (simp add: main_def)
    next
      case y: (Inr y)
      show ?thesis
      proof (cases "calc x y (argv ! 1)")
        case (Inr r)
        with len x y show ?thesis by (simp add: main_def)
      next
        case (Inl t)
        with len x y assms show ?thesis
          by (cases t) (simp_all add: main_def EXIT_FAILURE_def EXIT_SUCCESS_def)
      qed
    qed
  qed
qed

lemma main_cout_empty_unless_success:
  assumes "ending (main stod calc argv) \<noteq> Return EXIT_SUCCESS"
  shows "cout (main stod calc argv) = []"
  using assms by (simp add: main_def Let_def split: sum.splits thrown.splits if_splits)

text \<open>
  With the calculator of the spec behind the front end, a division by zero and an
  unknown operation end in a message on standard error and the status \<open>EXIT_FAILURE\<close>.
\<close>

lemma main_calculator_error:
  assumes "length argv = 4"
    and "stod (argv ! 2) = Inr x" and "stod (argv ! 3) = Inr y"
    and "calculate x y (argv ! 1) = Inl e"
  shows "ending (main stod (calculate_cpp what_of unk) argv) = Return EXIT_FAILURE \<and>
         cerr (main stod (calculate_cpp what_of unk) argv) = [Text (what_of e), Text endl] \<and>
         cout (main stod (calculate_cpp what_of unk) argv) = []"
  using assms by (cases e) (simp_all add: main_def calculate_cpp_def)

text \<open>
  C6. Whenever the front end is started with an argument count other than three
  positional arguments (\<open>argc\<close> other than 4), it writes the usage message to standard
  error and returns a status that is not zero.
\<close>

theorem main_wrong_argument_count:
  assumes "length argv \<noteq> 4"
  shows "ending (main stod calc argv) = Return EXIT_FAILURE \<and> EXIT_FAILURE \<noteq> 0 \<and>
         cerr (main stod calc argv) = [Text usage]"
  using assms by (simp add: main_def EXIT_FAILURE_def)

theorem main_wrong_argument_count_witness:
  "length [''./calculator''] \<noteq> 4 \<and>
   ending (main stod_decimal (calculate_cpp error_name Invalid_argument) [''./calculator''])
     = Return 1 \<and>
   cerr (main stod_decimal (calculate_cpp error_name Invalid_argument) [''./calculator''])
     = [Text usage]"
  using main_wrong_argument_count
          [of "[''./calculator'']" stod_decimal "calculate_cpp error_name Invalid_argument"]
  by (simp add: EXIT_FAILURE_def)

text \<open>
  C10. The front end checks the argument count first: with \<open>argc\<close> other than 4 the run
  is the usage line on standard error and the status \<open>EXIT_FAILURE\<close>, nothing on standard
  output, and neither \<open>std::stod\<close> nor \<open>calculate\<close> has been called.
\<close>

theorem main_checks_argc_first:
  assumes "int (length argv) \<noteq> 4"
  shows "main stod calc argv =
           \<lparr>ending = Return EXIT_FAILURE, cout = [], cerr = [Text usage], calls = []\<rparr>"
  using assms by (simp add: main_def)

theorem main_checks_argc_first_witness:
  "int (length [''./calculator'', ''--add'', ''x'', ''2'', ''3'']) \<noteq> 4 \<and>
   main stod_decimal (calculate_cpp error_name Invalid_argument)
        [''./calculator'', ''--add'', ''x'', ''2'', ''3''] =
     \<lparr>ending = Return 1, cout = [], cerr = [Text usage], calls = []\<rparr>"
  using main_checks_argc_first
          [of "[''./calculator'', ''--add'', ''x'', ''2'', ''3'']" stod_decimal
              "calculate_cpp error_name Invalid_argument"]
  by (simp add: EXIT_FAILURE_def)

text \<open>
  The handler of \<open>main\<close>: the C++ \<open>calculate\<close> signals a division by zero by throwing
  \<open>std::invalid_argument\<close>, and whatever exception derived from \<open>std::exception\<close> the call
  of \<open>calculate\<close> throws, the front end writes its \<open>what()\<close> text to standard error and
  returns \<open>EXIT_FAILURE\<close>.
\<close>

lemma main_maps_exception:
  "calculate_cpp what_of unk a 0 ''--divide'' = Inl (Std Invalid_argument (what_of DivisionByZero)) \<and>
   (length argv = 4 \<and> stod (argv ! 2) = Inr x \<and> stod (argv ! 3) = Inr y \<and>
    calc x y (argv ! 1) = Inl (Std c w) \<longrightarrow>
    ending (main stod calc argv) = Return EXIT_FAILURE \<and>
    cerr (main stod calc argv) = [Text w, Text endl] \<and>
    cout (main stod calc argv) = [])"
  by (simp add: main_def calculate_cpp_def calculate_def operation_of_token_def)

text \<open>
  An exception of \<open>std::stod\<close> is not among them: on four arguments, what the conversion
  of an operand throws leaves \<open>main\<close>, with nothing written to standard error.
\<close>

lemma main_stod_throws:
  assumes "length argv = 4"
    and "stod (argv ! 2) = Inl t \<or> (stod (argv ! 2) = Inr x \<and> stod (argv ! 3) = Inl t)"
  shows "ending (main stod calc argv) = Terminate t \<and> cerr (main stod calc argv) = []"
  using assms by (auto simp add: main_def)

text \<open>
  C9, at a second operand without digits. The exception that \<open>std::stod\<close> throws is a
  \<open>std::invalid_argument\<close>, derived from \<open>std::exception\<close>; it is thrown before the \<open>try\<close>
  block, so its \<open>what()\<close> text is not written to standard error and \<open>main\<close> does not
  return \<open>EXIT_FAILURE\<close>.
\<close>

theorem main_stod_exception_not_mapped:
  "main stod_decimal (calculate_cpp what_of unk) [''./calculator'', ''--divide'', ''1'', ''x''] =
     \<lparr>ending = Terminate (Std Invalid_argument ''stod''), cout = [], cerr = [],
      calls = [Stod ''1'', Stod ''x'']\<rparr>"
  by (simp add: main_def stod_decimal_digit stod_decimal_no_digits)

text \<open>
  C3, as the code has it. An operand that is not a numeric literal but begins with one
  is converted: \<open>5abc\<close> counts as \<open>5\<close> and the invocation succeeds.
\<close>

theorem main_accepts_numeric_prefix:
  "\<not> decimal_literal ''5abc'' \<and>
   length [''./calculator'', ''--add'', ''5abc'', ''3''] = 4 \<and>
   main stod_decimal (calculate_cpp error_name Invalid_argument)
        [''./calculator'', ''--add'', ''5abc'', ''3''] =
     \<lparr>ending = Return 0, cout = [Text ''Result: '', Num 8, Text endl], cerr = [],
      calls = [Stod ''5abc'', Stod ''3'', Calculate 5 3 ''--add'']\<rparr>"
  by (simp add: not_decimal_literal_5abc main_def stod_decimal_5abc stod_decimal_digit
        calculate_cpp_def calculate_def operation_of_token_def EXIT_SUCCESS_def)

text \<open>
  C3, amended. For every invocation with the correct argument count in which
  \<open>std::stod\<close> converts no leading part of an operand string (it throws), the front end
  does not succeed: \<open>calculate\<close> is not called, nothing is written to standard output and
  \<open>main\<close> does not return \<open>EXIT_SUCCESS\<close>.
\<close>

theorem main_rejected_operand:
  assumes "length argv = 4"
    and "isl (stod (argv ! 2)) \<or> isl (stod (argv ! 3))"
  shows "ending (main stod calc argv) \<noteq> Return EXIT_SUCCESS \<and>
         cout (main stod calc argv) = [] \<and>
         set (calls (main stod calc argv)) \<subseteq> {Stod (argv ! 2), Stod (argv ! 3)}"
  using assms by (auto simp add: main_def isl_def split: sum.splits)

theorem main_rejected_operand_witness:
  "length [''./calculator'', ''--multiply'', ''2'', ''x''] = 4 \<and>
   isl (stod_decimal ''x'') \<and>
   ending (main stod_decimal (calculate_cpp error_name Invalid_argument)
             [''./calculator'', ''--multiply'', ''2'', ''x'']) \<noteq> Return 0 \<and>
   cout (main stod_decimal (calculate_cpp error_name Invalid_argument)
             [''./calculator'', ''--multiply'', ''2'', ''x'']) = []"
  using main_rejected_operand
          [of "[''./calculator'', ''--multiply'', ''2'', ''x'']" stod_decimal
              "calculate_cpp error_name Invalid_argument"]
  by (simp add: stod_decimal_no_digits EXIT_SUCCESS_def)

text \<open>
  C5, at an operand without digits. \<open>std::stod\<close> throws \<open>std::invalid_argument\<close> outside
  the \<open>try\<close> block: nothing is written to either stream and \<open>main\<close> returns no status, the
  process ends in \<open>std::terminate\<close>.
\<close>

theorem main_operand_without_digits:
  "\<not> decimal_literal ''abc'' \<and>
   main stod_decimal (calculate_cpp what_of unk) [''./calculator'', ''--add'', ''abc'', ''3''] =
     \<lparr>ending = Terminate (Std Invalid_argument ''stod''), cout = [], cerr = [],
      calls = [Stod ''abc'']\<rparr>"
  by (simp add: not_decimal_literal_abc main_def stod_decimal_no_digits)

end
